theory Spec2Isabelle
  imports Complex_Main "HOL-Library.AList" "HOL-Library.Sublist"
begin

section \<open>Python values, dictionaries and strings\<close>

text \<open>
  The agent of \<^verbatim>\<open>AIPropositionAgent.py\<close> passes untyped Python values (\<^verbatim>\<open>Any\<close>,
  \<^verbatim>\<open>List\<close>, \<^verbatim>\<open>Dict\<close>) between its helper methods. They are modelled by
  \<open>pyval\<close>; a Python \<^verbatim>\<open>dict\<close> with string keys is an association list in insertion
  order. Floats are modelled as reals: the code only stores and compares the literals
  \<^verbatim>\<open>0.7\<close>, \<^verbatim>\<open>0.8\<close>, \<^verbatim>\<open>0.85\<close>, \<^verbatim>\<open>0.9\<close>, \<^verbatim>\<open>0.0\<close> and the scores its helpers return.
\<close>

datatype pyval =
    PNone
  | PBool bool
  | PFloat real
  | PStr string
  | PList "pyval list"
  | PDict "(string \<times> pyval) list"

type_synonym pydict = "(string \<times> pyval) list"

text \<open>Python truthiness, as \<^verbatim>\<open>if not x\<close> tests it.\<close>

fun truthy :: "pyval \<Rightarrow> bool" where
  "truthy PNone = False"
| "truthy (PBool b) = b"
| "truthy (PFloat r) = (r \<noteq> 0)"
| "truthy (PStr s) = (s \<noteq> [])"
| "truthy (PList xs) = (xs \<noteq> [])"
| "truthy (PDict d) = (d \<noteq> [])"

datatype error =
    ValueError string
  | KeyError string
  | AttributeError string

text \<open>
  \<^verbatim>\<open>k in d\<close>, \<^verbatim>\<open>d.get(k)\<close> and \<^verbatim>\<open>d.get(k, dflt)\<close>. The subscription \<^verbatim>\<open>d[k]\<close> raises
  \<^verbatim>\<open>KeyError(k)\<close> unless \<^verbatim>\<open>k in d\<close>, and is \<^verbatim>\<open>d.get(k)\<close> otherwise; the stages below
  write it so.
\<close>

definition has_key :: "pydict \<Rightarrow> string \<Rightarrow> bool" where
  "has_key d k = (map_of d k \<noteq> None)"

definition dict_get :: "pydict \<Rightarrow> string \<Rightarrow> pyval" where
  "dict_get d k = (case map_of d k of None \<Rightarrow> PNone | Some v \<Rightarrow> v)"

definition dict_get_default :: "pydict \<Rightarrow> string \<Rightarrow> pyval \<Rightarrow> pyval" where
  "dict_get_default d k dflt = (case map_of d k of None \<Rightarrow> dflt | Some v \<Rightarrow> v)"

text \<open>\<^verbatim>\<open>sub in s\<close> on strings: \<open>sub\<close> occurs in \<open>s\<close> as a contiguous block.\<close>

fun str_contains :: "string \<Rightarrow> string \<Rightarrow> bool" where
  "str_contains sub [] = (sub = [])"
| "str_contains sub (c # cs) = (prefix sub (c # cs) \<or> str_contains sub cs)"

text \<open>
  \<^verbatim>\<open>s.replace(old, new)\<close> for a non-empty \<open>old\<close>: every non-overlapping occurrence,
  scanning from the left. (The source only calls it with \<^verbatim>\<open>old = "causes"\<close>; for an empty
  \<open>old\<close> this function returns \<open>s\<close>, which is not what Python does.)
\<close>

function str_replace :: "string \<Rightarrow> string \<Rightarrow> string \<Rightarrow> string" where
  "str_replace old new [] = []"
| "str_replace old new (c # cs) =
     (if old \<noteq> [] \<and> prefix old (c # cs)
      then new @ str_replace old new (drop (length old) (c # cs))
      else c # str_replace old new cs)"
  by pat_completeness auto
termination
  by (relation "measure (\<lambda>(old, new, s). length s)") auto

section \<open>The agent's state\<close>

text \<open>
  \<^verbatim>\<open>log_step\<close> writes one line \<^verbatim>\<open>"{datetime.now()} - {step}: {output}"\<close> to the logger. The
  lines written so far are kept in the state as pairs of the step name and the output;
  the wall-clock prefix of a line is not part of the model. An output is either a
  string literal (\<open>Txt\<close>) or an f-string \<^verbatim>\<open>f"prefix{value}"\<close> (\<open>Fmt prefix value\<close>).

  The fields of the agent are values here. The source shares some objects by reference:
  the evidence record of step 2.9 holds \<^verbatim>\<open>self.expert_data\<close> itself, so that a later
  \<^verbatim>\<open>gather_evidence\<close> which changes the reliability changes that earlier record too, where
  the model keeps the record as it was appended; the stages return \<^verbatim>\<open>self.premises\<close>,
  \<^verbatim>\<open>self.evidence\<close> and \<^verbatim>\<open>self.confidence_scores\<close> themselves, where the model returns their
  value at the return. No property below reads an expert record of an earlier call or a
  returned object after a later call.
\<close>

datatype log_output = Txt string | Fmt string pyval

type_synonym log_entry = "string \<times> log_output"

record agent =
  self_premises :: "string list"
  hypothesis :: string
  statement :: string
  evidence :: "pydict list"
  expert_data :: pydict
  group_feedback :: pyval
  confidence_scores :: "string \<rightharpoonup> real"
  logged :: "log_entry list"

text \<open>\<^verbatim>\<open>__init__\<close>: a freshly constructed agent (nothing logged yet).\<close>

definition init :: agent where
  "init = \<lparr> self_premises = [], hypothesis = [], statement = [], evidence = [],
            expert_data = [], group_feedback = PList [], confidence_scores = Map.empty,
            logged = [] \<rparr>"

definition log_step :: "string \<Rightarrow> log_output \<Rightarrow> agent \<Rightarrow> agent" where
  "log_step step output s = s\<lparr> logged := logged s @ [(step, output)] \<rparr>"

text \<open>
  The dictionaries \<^verbatim>\<open>input_data\<close> of \<^verbatim>\<open>define_proposition\<close> and \<^verbatim>\<open>context\<close> of
  \<^verbatim>\<open>gather_evidence\<close> (the main program passes the same dictionary to both), read at the
  keys the code reads. A field of type \<open>pyval\<close> is what \<^verbatim>\<open>.get(key)\<close> returns
  (\<open>PNone\<close> for an absent key); an optional field is \<open>None\<close> for an absent key and
  the code's default is applied where it is read. Premises, phenomenon and effect are
  strings, as the helper signatures and the main program have them.
\<close>

record input_data =
  i_context :: pyval
  i_initial_premises :: "string list option"
  i_phenomenon :: "string option"
  i_effect :: "string option"
  i_use_case :: pyval
  i_domain :: pyval
  i_initial_data :: "pyval option"
  i_target :: pyval
  i_data_sources :: pyval
  i_controls :: pyval
  i_time_sensitive :: pyval
  i_group :: pyval

text \<open>The empty dictionary \<^verbatim>\<open>{}\<close> read as an input.\<close>

definition no_input :: input_data where
  "no_input = \<lparr> i_context = PNone, i_initial_premises = None, i_phenomenon = None,
      i_effect = None, i_use_case = PNone, i_domain = PNone, i_initial_data = None,
      i_target = PNone, i_data_sources = PNone, i_controls = PNone,
      i_time_sensitive = PNone, i_group = PNone \<rparr>"

text \<open>The value \<^verbatim>\<open>evaluate_proposition\<close> returns and \<^verbatim>\<open>conclude_proposition\<close> receives.\<close>

record evaluation =
  e_statement :: string
  e_confidence :: "string \<rightharpoonup> real"

text \<open>
  The value \<^verbatim>\<open>conclude_proposition\<close> returns:
  \<^verbatim>\<open>{"truth": False, "reason": r}\<close> or
  \<^verbatim>\<open>{"truth": True, "statement": s, "confidence": c}\<close>.
\<close>

datatype conclusion =
    Truth_False string
  | Truth_True string "string \<rightharpoonup> real"

section \<open>The helper methods\<close>

text \<open>
  The helper methods of the class are its pluggable part (the source marks their bodies
  as placeholders; a subclass overrides them). The stages below call them through this
  method table, so that a property of a stage can be stated for every behaviour of the
  helpers. A helper is a function of its arguments (it changes nothing of the agent and
  calls none of the four stages, as the helpers of the source); \<^verbatim>\<open>build_arguments\<close> and
  \<^verbatim>\<open>refine_hypothesis\<close>, whose source bodies read \<^verbatim>\<open>self.statement\<close> and
  \<^verbatim>\<open>self.hypothesis\<close>, take that field as their first argument. The class calls
  \<^verbatim>\<open>self.frame_practical\<close> but defines no such method: the field is optional, and
  \<open>None\<close> is a class without it.
\<close>

record methods =
  evaluate_clarity :: "string \<Rightarrow> real"
  is_falsifiable :: "string \<Rightarrow> bool"
  context_match :: "string \<Rightarrow> pyval \<Rightarrow> bool"
  clarify_statement :: "string \<Rightarrow> string"
  is_assessable :: "string \<Rightarrow> bool"
  frame_practical :: "(string \<Rightarrow> pyval \<Rightarrow> string) option"
  is_actionable :: "string \<Rightarrow> bool"
  prepare_for_group :: "string \<Rightarrow> string"
  find_expert :: "pyval \<Rightarrow> pydict"
  simulate_gut :: "pyval \<Rightarrow> pyval"
  observe_phenomena :: "pyval \<Rightarrow> pyval"
  record_data :: "pyval \<Rightarrow> pydict"
  build_arguments :: "string \<Rightarrow> string list \<Rightarrow> pydict \<Rightarrow> string list"
  list_beliefs :: "string list \<Rightarrow> string list"
  gather_facts :: "string list \<Rightarrow> pyval \<Rightarrow> pyval"
  apply_scenario :: "string \<Rightarrow> pyval \<Rightarrow> pydict"
  conduct_experiment :: "string \<Rightarrow> pyval \<Rightarrow> pydict"
  is_outdated :: "pydict \<Rightarrow> pyval \<Rightarrow> bool"
  refresh_data :: "pyval \<Rightarrow> pydict"
  review_credentials :: "pydict \<Rightarrow> pyval"
  consult_group :: "string \<Rightarrow> pyval \<Rightarrow> pyval"
  cross_check_logic :: "string \<Rightarrow> pydict list \<Rightarrow> pydict"
  test_consistency :: "string list \<Rightarrow> pydict list \<Rightarrow> pydict"
  check_fit :: "string \<Rightarrow> pydict list \<Rightarrow> pydict"
  compare_facts :: "string \<Rightarrow> pydict list \<Rightarrow> pydict"
  verify_repeatability :: "pydict list \<Rightarrow> pydict"
  analyze_data :: "pydict list \<Rightarrow> pydict"
  update_bayesian :: "pydict \<Rightarrow> real"
  evaluate_outcomes :: "pydict \<Rightarrow> pydict"
  evaluate_testimony :: "pydict \<Rightarrow> pydict"
  gauge_consensus :: "pyval \<Rightarrow> pydict"
  conclude_rationally :: "evaluation \<Rightarrow> pydict"
  accept_belief :: "string \<Rightarrow> evaluation \<Rightarrow> pydict"
  conclude_alignment :: "string \<Rightarrow> evaluation \<Rightarrow> pydict"
  accept_empirically :: "evaluation \<Rightarrow> pydict"
  refine_hypothesis :: "string \<Rightarrow> evaluation \<Rightarrow> pydict"
  deem_practical :: "evaluation \<Rightarrow> pydict"
  trust_authority :: "pydict \<Rightarrow> pydict"
  consider_consensus :: "evaluation \<Rightarrow> pydict"


text \<open>
  The class as the source has it: every helper with its source body, and no
  \<^verbatim>\<open>frame_practical\<close>. \<open>now\<close> is the value \<^verbatim>\<open>datetime.now()\<close> returns inside
  \<^verbatim>\<open>record_data\<close>.
\<close>

definition AIPropositionAgent :: "pyval \<Rightarrow> methods" where
  "AIPropositionAgent now = \<lparr>
     evaluate_clarity = (\<lambda>premise. 0.8),
     is_falsifiable = (\<lambda>hypothesis. str_contains ''causes'' hypothesis),
     context_match = (\<lambda>statement context. True),
     clarify_statement = (\<lambda>statement. str_replace ''causes'' ''leads to'' statement),
     is_assessable = (\<lambda>statement. length statement > 10),
     frame_practical = None,
     is_actionable = (\<lambda>statement. str_contains ''leads to'' statement),
     prepare_for_group = (\<lambda>statement. ''Proposition: '' @ statement),
     find_expert = (\<lambda>domain.
       [(''name'', PStr ''Expert''), (''credentials'', PStr ''PhD''), (''reliability'', PFloat 0.9)]),
     simulate_gut = (\<lambda>data. PList [PStr ''Positive initial insight'']),
     observe_phenomena = (\<lambda>target. PList [PStr ''Observation data'']),
     record_data = (\<lambda>observations. [(''data'', observations), (''timestamp'', now)]),
     build_arguments = (\<lambda>self_statement premises data.
       map (\<lambda>p. p @ '' supports '' @ self_statement) premises),
     list_beliefs = (\<lambda>arguments. arguments),
     gather_facts = (\<lambda>beliefs sources. PList [PStr ''Fact 1'', PStr ''Fact 2'']),
     apply_scenario = (\<lambda>statement facts. [(''results'', PStr ''Scenario applied'')]),
     conduct_experiment = (\<lambda>statement controls. [(''data'', PStr ''Experiment results'')]),
     is_outdated = (\<lambda>data time_sensitive. False),
     refresh_data = (\<lambda>sources. [(''data'', PStr ''Updated results'')]),
     review_credentials = (\<lambda>expert. dict_get_default expert ''reliability'' (PFloat 0.0)),
     consult_group = (\<lambda>statement group.
       PList [PDict [(''member'', PStr ''Peer''), (''feedback'', PStr ''Agree'')]]),
     cross_check_logic = (\<lambda>statement evidence. [(''valid'', PBool True)]),
     test_consistency = (\<lambda>premises evidence. [(''consistent'', PBool True)]),
     check_fit = (\<lambda>statement evidence. [(''coherent'', PBool True)]),
     compare_facts = (\<lambda>statement evidence. [(''aligned'', PBool True)]),
     verify_repeatability = (\<lambda>evidence. [(''reliable'', PBool True)]),
     analyze_data = (\<lambda>evidence.
       [(''patterns'', PList [PStr ''Pattern 1'']), (''new_patterns'', PBool False)]),
     update_bayesian = (\<lambda>analysis. 0.85),
     evaluate_outcomes = (\<lambda>analysis. [(''useful'', PBool True)]),
     evaluate_testimony = (\<lambda>expert. [(''relevant'', PBool True)]),
     gauge_consensus = (\<lambda>feedback. [(''broad'', PBool True)]),
     conclude_rationally = (\<lambda>evaluation. [(''valid'', PBool True)]),
     accept_belief = (\<lambda>statement evaluation. [(''coherent'', PBool True)]),
     conclude_alignment = (\<lambda>statement evaluation. [(''matched'', PBool True)]),
     accept_empirically = (\<lambda>evaluation. [(''supported'', PBool True)]),
     refine_hypothesis = (\<lambda>self_hypothesis evaluation.
       [(''hypothesis'', PStr self_hypothesis), (''confidence'', PFloat 0.85)]),
     deem_practical = (\<lambda>evaluation. [(''effective'', PBool True)]),
     trust_authority = (\<lambda>expert. [(''credible'', PBool True)]),
     consider_consensus = (\<lambda>evaluation. [(''agreed'', PBool True)]) \<rparr>"

section \<open>Stage 1: \<^verbatim>\<open>define_proposition\<close>\<close>

text \<open>
  The premise loop of step 1.2,
  \<^verbatim>\<open>for premise in self.premises: ... else: self.premises.remove(premise)\<close>.
  Python's list iterator holds an index \<open>i\<close> into the list it walks and stops when
  \<open>i\<close> reaches the list's current length; \<^verbatim>\<open>remove\<close> deletes the first element equal
  to its argument from that same list, and the index still advances.
\<close>

function premises_loop ::
  "(string \<Rightarrow> real) \<Rightarrow> nat \<Rightarrow> string list \<Rightarrow> (string \<rightharpoonup> real)
     \<Rightarrow> string list \<times> (string \<rightharpoonup> real)" where
  "premises_loop clarity i ps cs =
     (if i < length ps
      then (let premise = ps ! i; clarity_score = clarity premise in
            if clarity_score > 0.7
            then premises_loop clarity (i + 1) ps (cs(premise \<mapsto> 0.7))
            else premises_loop clarity (i + 1) (remove1 premise ps) cs)
      else (ps, cs))"
  by pat_completeness auto
termination
  by (relation "measure (\<lambda>(clarity, i, ps, cs). length ps - i)")
     (auto simp: length_remove1)

declare premises_loop.simps [simp del]

definition define_proposition ::
  "methods \<Rightarrow> input_data \<Rightarrow> agent \<Rightarrow> (error + string \<times> string list) \<times> agent" where
  "define_proposition E input_data s0 =
    (let s = log_step ''Mind Quieting'' (Txt ''Initializing focus state.'') s0 in
     if \<not> truthy (i_context input_data)
     then (Inl (ValueError ''Context required for focus.''), s)
     else
     let s = log_step ''Mind Quieting'' (Txt ''Focus state achieved.'') s;
         s = log_step ''Premises Identification'' (Txt ''Listing self-evident truths.'') s;
         (ps, cs) = premises_loop (evaluate_clarity E) 0
                      (case i_initial_premises input_data of None \<Rightarrow> [] | Some l \<Rightarrow> l)
                      (confidence_scores s);
         s = s\<lparr> self_premises := ps, confidence_scores := cs \<rparr>;
         s = log_step ''Premises Identification''
               (Fmt ''Premises: '' (PList (map PStr (self_premises s)))) s;
         s = log_step ''Hypothesis Formation'' (Txt ''Formulating hypothesis.'') s;
         phenomenon = (case i_phenomenon input_data of None \<Rightarrow> [] | Some p \<Rightarrow> p)
     in
     if phenomenon = []
     then (Inl (ValueError ''Phenomenon required for hypothesis.''), s)
     else
     let s = s\<lparr> hypothesis := phenomenon @ '' causes ''
                   @ (case i_effect input_data of None \<Rightarrow> ''an outcome'' | Some e \<Rightarrow> e)
                   @ ''.'' \<rparr>
     in
     if \<not> is_falsifiable E (hypothesis s)
     then (Inl (ValueError ''Hypothesis must be falsifiable.''), s)
     else
     let s = log_step ''Hypothesis Formation'' (Fmt ''Hypothesis: '' (PStr (hypothesis s))) s;
         s = log_step ''Statement Identification'' (Txt ''Isolating key claim.'') s;
         s = s\<lparr> statement := hypothesis s \<rparr>
     in
     if \<not> context_match E (statement s) (i_context input_data)
     then (Inl (ValueError ''Statement does not match context.''), s)
     else
     let s = log_step ''Statement Identification'' (Fmt ''Statement: '' (PStr (statement s))) s;
         s = log_step ''Belief Clarification'' (Txt ''Rephrasing for precision.'') s;
         s = s\<lparr> statement := clarify_statement E (statement s) \<rparr>
     in
     if \<not> is_assessable E (statement s)
     then (Inl (ValueError ''Statement not assessable.''), s)
     else
     let s = log_step ''Belief Clarification'' (Fmt ''Clarified: '' (PStr (statement s))) s;
         s = log_step ''Claim Definition'' (Txt ''Framing for practical use.'') s
     in
     case frame_practical E of
       None \<Rightarrow> (Inl (AttributeError ''frame_practical''), s)
     | Some frame \<Rightarrow>
     let s = s\<lparr> statement := frame (statement s) (i_use_case input_data) \<rparr> in
     if \<not> is_actionable E (statement s)
     then (Inl (ValueError ''Claim not actionable.''), s)
     else
     let s = log_step ''Claim Definition'' (Fmt ''Practical claim: '' (PStr (statement s))) s;
         s = log_step ''Proposition Articulation'' (Txt ''Preparing for group share.'') s;
         articulated = prepare_for_group E (statement s);
         s = log_step ''Proposition Articulation'' (Fmt ''Articulated: '' (PStr articulated)) s;
         s = log_step ''Expert Identification'' (Txt ''Searching for experts.'') s;
         s = s\<lparr> expert_data := find_expert E (i_domain input_data) \<rparr>
     in
     if \<not> truthy (dict_get (expert_data s) ''credentials'')
     then (Inl (ValueError ''No qualified expert found.''), s)
     else
     if \<not> has_key (expert_data s) ''name''
     then (Inl (KeyError ''name''), s)
     else
     let s = log_step ''Expert Identification''
               (Fmt ''Expert: '' (dict_get (expert_data s) ''name'')) s
     in (Inr (statement s, self_premises s), s))"


section \<open>Stage 2: \<^verbatim>\<open>gather_evidence\<close>\<close>

text \<open>\<^verbatim>\<open>self.evidence.append({"source": source, "data": data})\<close>\<close>

definition append_evidence :: "string \<Rightarrow> pyval \<Rightarrow> agent \<Rightarrow> agent" where
  "append_evidence src dat s =
     s\<lparr> evidence := evidence s @ [[(''source'', PStr src), (''data'', dat)]] \<rparr>"

text \<open>
  The stage has no \<^verbatim>\<open>raise\<close>; it returns \<^verbatim>\<open>self.evidence\<close>. The line of step 2.9 that
  logs \<^verbatim>\<open>self.expert_data['reliability']\<close> reads back the key written two lines before.
\<close>

definition gather_evidence :: "methods \<Rightarrow> input_data \<Rightarrow> agent \<Rightarrow> pydict list \<times> agent" where
  "gather_evidence E context s0 =
    (let s = log_step ''Gut Tuning'' (Txt ''Simulating intuitive insights.'') s0;
         gut_insights = simulate_gut E
           (case i_initial_data context of None \<Rightarrow> PList [] | Some d \<Rightarrow> d);
         s = append_evidence ''intuition'' gut_insights s;
         s = log_step ''Gut Tuning'' (Fmt ''Insights: '' gut_insights) s;

         s = log_step ''Phenomena Observation'' (Txt ''Collecting sensory data.'') s;
         observations = observe_phenomena E (i_target context);
         s = append_evidence ''observation'' observations s;
         s = log_step ''Phenomena Observation'' (Fmt ''Observations: '' observations) s;

         s = log_step ''Experience Recording'' (Txt ''Documenting observations.'') s;
         recorded_data = record_data E observations;
         s = append_evidence ''recorded'' (PDict recorded_data) s;
         s = log_step ''Experience Recording'' (Fmt ''Recorded: '' (PDict recorded_data)) s;

         s = log_step ''Argument Building'' (Txt ''Constructing logical arguments.'') s;
         arguments = build_arguments E (statement s) (self_premises s) recorded_data;
         s = append_evidence ''arguments'' (PList (map PStr arguments)) s;
         s = log_step ''Argument Building'' (Fmt ''Arguments: '' (PList (map PStr arguments))) s;

         s = log_step ''Beliefs Listing'' (Txt ''Compiling related beliefs.'') s;
         beliefs = list_beliefs E arguments;
         s = append_evidence ''beliefs'' (PList (map PStr beliefs)) s;
         s = log_step ''Beliefs Listing'' (Fmt ''Beliefs: '' (PList (map PStr beliefs))) s;

         s = log_step ''Facts Gathering'' (Txt ''Collecting real-world data.'') s;
         facts = gather_facts E beliefs (i_data_sources context);
         s = append_evidence ''facts'' facts s;
         s = log_step ''Facts Gathering'' (Fmt ''Facts: '' facts) s;

         s = log_step ''Scenario Application'' (Txt ''Testing in real-world scenario.'') s;
         results = apply_scenario E (statement s) facts;
         s = append_evidence ''scenario'' (PDict results) s;
         s = log_step ''Scenario Application'' (Fmt ''Results: '' (PDict results)) s;

         s = log_step ''Experiment Conducting'' (Txt ''Running structured tests.'') s;
         exp_data = conduct_experiment E (statement s) (i_controls context);
         s = append_evidence ''experiment'' (PDict exp_data) s;
         exp_data = (if is_outdated E exp_data (i_time_sensitive context)
                     then refresh_data E (i_data_sources context) else exp_data);
         s = log_step ''Experiment Conducting'' (Fmt ''Experiment data: '' (PDict exp_data)) s;

         s = log_step ''Credentials Review'' (Txt ''Verifying expert reliability.'') s;
         s = s\<lparr> expert_data :=
                 AList.update ''reliability'' (review_credentials E (expert_data s))
                   (expert_data s) \<rparr>;
         s = append_evidence ''expert'' (PDict (expert_data s)) s;
         s = log_step ''Credentials Review''
               (Fmt ''Expert reliability: '' (dict_get (expert_data s) ''reliability'')) s;

         s = log_step ''Group Consultation'' (Txt ''Gathering group feedback.'') s;
         s = s\<lparr> group_feedback := consult_group E (statement s) (i_group context) \<rparr>;
         s = append_evidence ''group'' (group_feedback s) s;
         s = log_step ''Group Consultation'' (Fmt ''Feedback: '' (group_feedback s)) s
     in (evidence s, s))"

section \<open>Stage 3: \<^verbatim>\<open>evaluate_proposition\<close>\<close>

text \<open>
  \<open>ev\<close> is the parameter \<^verbatim>\<open>evidence\<close>; step 3.3 reads \<^verbatim>\<open>self.evidence\<close> instead. A raise
  leaves the state as the steps before it made it. Step 3.6 calls \<^verbatim>\<open>gather_evidence\<close> with
  the one-key dictionary \<^verbatim>\<open>{"data_sources": analysis.get("new_sources")}\<close>.
\<close>

definition evaluate_proposition ::
  "methods \<Rightarrow> pydict list \<Rightarrow> agent \<Rightarrow> (error + evaluation) \<times> agent" where
  "evaluate_proposition E ev s0 =
    (let s = log_step ''Logic Cross-Check'' (Txt ''Validating with logic.'') s0;
         logic_check = cross_check_logic E (statement s) ev
     in
     if \<not> has_key logic_check ''valid'' then (Inl (KeyError ''valid''), s) else
     if \<not> truthy (dict_get logic_check ''valid'') then (Inl (ValueError ''Logic check failed.''), s) else
     let s = log_step ''Logic Cross-Check'' (Fmt ''Logic valid: '' (PDict logic_check)) s;

         s = log_step ''Consistency Testing'' (Txt ''Testing for logical consistency.'') s;
         consistency = test_consistency E (self_premises s) ev
     in
     if \<not> has_key consistency ''consistent'' then (Inl (KeyError ''consistent''), s) else
     if \<not> truthy (dict_get consistency ''consistent'') then (Inl (ValueError ''Inconsistent reasoning.''), s) else
     let s = log_step ''Consistency Testing'' (Fmt ''Consistency: '' (PDict consistency)) s;

         s = log_step ''Fit Checking'' (Txt ''Checking belief fit.'') s;
         fit = check_fit E (statement s) (evidence s)
     in
     if \<not> has_key fit ''coherent'' then (Inl (KeyError ''coherent''), s) else
     if \<not> truthy (dict_get fit ''coherent'') then (Inl (ValueError ''Belief fit failed.''), s) else
     let s = log_step ''Fit Checking'' (Fmt ''Fit: '' (PDict fit)) s;

         s = log_step ''Statement Comparison'' (Txt ''Comparing to facts.'') s;
         match = compare_facts E (statement s) ev
     in
     if \<not> has_key match ''aligned'' then (Inl (KeyError ''aligned''), s) else
     if \<not> truthy (dict_get match ''aligned'') then (Inl (ValueError ''Statement does not match facts.''), s) else
     let s = log_step ''Statement Comparison'' (Fmt ''Match: '' (PDict match)) s;

         s = log_step ''Repeatability Verification'' (Txt ''Verifying repeatability.'') s;
         repeatability = verify_repeatability E ev
     in
     if \<not> has_key repeatability ''reliable'' then (Inl (KeyError ''reliable''), s) else
     if \<not> truthy (dict_get repeatability ''reliable'') then (Inl (ValueError ''Data not repeatable.''), s) else
     let s = log_step ''Repeatability Verification''
               (Fmt ''Repeatability: '' (PDict repeatability)) s;

         s = log_step ''Data Analysis'' (Txt ''Analyzing for patterns.'') s;
         analysis = analyze_data E ev;
         s = s\<lparr> confidence_scores :=
                 (confidence_scores s)(''posterior'' \<mapsto> update_bayesian E analysis) \<rparr>;
         s = (if truthy (dict_get analysis ''new_patterns'')
              then snd (gather_evidence E
                          (no_input\<lparr> i_data_sources := dict_get analysis ''new_sources'' \<rparr>) s)
              else s);
         s = log_step ''Data Analysis'' (Fmt ''Analysis: '' (PDict analysis)) s;

         s = log_step ''Outcomes Evaluation'' (Txt ''Evaluating practical value.'') s;
         outcomes = evaluate_outcomes E analysis
     in
     if \<not> has_key outcomes ''useful'' then (Inl (KeyError ''useful''), s) else
     if \<not> truthy (dict_get outcomes ''useful'') then (Inl (ValueError ''Outcomes not practical.''), s) else
     let s = log_step ''Outcomes Evaluation'' (Fmt ''Outcomes: '' (PDict outcomes)) s;

         s = log_step ''Testimony Evaluation'' (Txt ''Assessing expert input.'') s;
         testimony = evaluate_testimony E (expert_data s)
     in
     if \<not> has_key testimony ''relevant'' then (Inl (KeyError ''relevant''), s) else
     if \<not> truthy (dict_get testimony ''relevant'') then (Inl (ValueError ''Expert testimony not relevant.''), s) else
     let s = log_step ''Testimony Evaluation'' (Fmt ''Testimony: '' (PDict testimony)) s;

         s = log_step ''Agreement Gauging'' (Txt ''Measuring group consensus.'') s;
         consensus = gauge_consensus E (group_feedback s)
     in
     if \<not> has_key consensus ''broad'' then (Inl (KeyError ''broad''), s) else
     if \<not> truthy (dict_get consensus ''broad'') then (Inl (ValueError ''No broad consensus.''), s) else
     let s = log_step ''Agreement Gauging'' (Fmt ''Consensus: '' (PDict consensus)) s
     in (Inr \<lparr> e_statement = statement s, e_confidence = confidence_scores s \<rparr>, s))"

section \<open>Stage 4: \<^verbatim>\<open>conclude_proposition\<close>\<close>

definition schedule_monitoring :: "agent \<Rightarrow> agent" where
  "schedule_monitoring s =
     log_step ''Monitoring'' (Txt ''Scheduled for future re-evaluation.'') s"

definition conclude_proposition ::
  "methods \<Rightarrow> evaluation \<Rightarrow> agent \<Rightarrow> (error + conclusion) \<times> agent" where
  "conclude_proposition E evaluation s0 =
    (let s = log_step ''Rational Conclusion'' (Txt ''Checking logical validity.'') s0;
         rational = conclude_rationally E evaluation
     in
     if \<not> has_key rational ''valid'' then (Inl (KeyError ''valid''), s) else
     if \<not> truthy (dict_get rational ''valid'') then (Inl (ValueError ''Rational conclusion failed.''), s) else
     let s = log_step ''Rational Conclusion'' (Fmt ''Rational: '' (PDict rational)) s;

         s = log_step ''Belief Acceptance'' (Txt ''Checking belief integration.'') s;
         integration = accept_belief E (statement s) evaluation
     in
     if \<not> has_key integration ''coherent'' then (Inl (KeyError ''coherent''), s) else
     if \<not> truthy (dict_get integration ''coherent'') then (Inl (ValueError ''Belief not integrated.''), s) else
     let s = log_step ''Belief Acceptance'' (Fmt ''Integration: '' (PDict integration)) s;

         s = log_step ''Alignment Conclusion'' (Txt ''Verifying fact alignment.'') s;
         alignment = conclude_alignment E (statement s) evaluation
     in
     if \<not> has_key alignment ''matched'' then (Inl (KeyError ''matched''), s) else
     if \<not> truthy (dict_get alignment ''matched'') then (Inr (Truth_False ''No fact alignment''), s) else
     let s = log_step ''Alignment Conclusion'' (Fmt ''Alignment: '' (PDict alignment)) s;

         s = log_step ''Empirical Acceptance'' (Txt ''Checking evidence support.'') s;
         empirical = accept_empirically E evaluation
     in
     if \<not> has_key empirical ''supported'' then (Inl (KeyError ''supported''), s) else
     if \<not> truthy (dict_get empirical ''supported'') then (Inr (Truth_False ''No empirical support''), s) else
     let s = log_step ''Empirical Acceptance'' (Fmt ''Empirical: '' (PDict empirical)) s;

         s = log_step ''Hypothesis Refinement'' (Txt ''Refining hypothesis.'') s;
         refined = refine_hypothesis E (hypothesis s) evaluation;
         s = log_step ''Hypothesis Refinement'' (Fmt ''Hypothesis: '' (PDict refined)) s;

         s = log_step ''Practical Deeming'' (Txt ''Checking practical value.'') s;
         practical = deem_practical E evaluation
     in
     if \<not> has_key practical ''effective'' then (Inl (KeyError ''effective''), s) else
     if \<not> truthy (dict_get practical ''effective'') then (Inr (Truth_False ''Not practical''), s) else
     let s = log_step ''Practical Deeming'' (Fmt ''Practical: '' (PDict practical)) s;

         s = log_step ''Authority Trusting'' (Txt ''Verifying expert credibility.'') s;
         authority = trust_authority E (expert_data s)
     in
     if \<not> has_key authority ''credible'' then (Inl (KeyError ''credible''), s) else
     if \<not> truthy (dict_get authority ''credible'') then (Inr (Truth_False ''Expert not credible''), s) else
     let s = log_step ''Authority Trusting'' (Fmt ''Authority: '' (PDict authority)) s;

         s = log_step ''Consensus Consideration'' (Txt ''Finalizing with consensus.'') s;
         consensus = consider_consensus E evaluation
     in
     if \<not> has_key consensus ''agreed'' then (Inl (KeyError ''agreed''), s) else
     if \<not> truthy (dict_get consensus ''agreed'') then (Inr (Truth_False ''No consensus''), s) else
     let s = log_step ''Consensus Consideration'' (Fmt ''Consensus: '' (PDict consensus)) s;
         s = schedule_monitoring s
     in (Inr (Truth_True (statement s) (confidence_scores s)), s))"


section \<open>The main program's input\<close>

text \<open>The dictionary the \<^verbatim>\<open>__main__\<close> block passes to \<^verbatim>\<open>define_proposition\<close> and \<^verbatim>\<open>gather_evidence\<close>.\<close>

definition main_input :: input_data where
  "main_input = \<lparr>
     i_context = PStr ''Workplace motivation'',
     i_initial_premises = Some [''Recognition motivates'', ''Effort impacts output''],
     i_phenomenon = Some ''Employee recognition'',
     i_effect = Some ''increased productivity'',
     i_use_case = PStr ''Team performance'',
     i_domain = PStr ''Organizational psychology'',
     i_initial_data = None,
     i_target = PNone,
     i_data_sources = PList [PStr ''Web'', PStr ''X posts''],
     i_controls = PNone,
     i_time_sensitive = PBool False,
     i_group = PList [PStr ''Colleagues'', PStr ''Experts''] \<rparr>"


section \<open>Subclasses for the concrete runs\<close>

text \<open>The class as shipped, at a fixed reading of the clock.\<close>

definition shipped :: methods where
  "shipped = AIPropositionAgent (PStr ''2025-01-01 00:00:00'')"

text \<open>
  A subclass that adds the missing \<^verbatim>\<open>frame_practical\<close> (it returns the statement as it is)
  and scores the clarity of the premise \<^verbatim>\<open>"clear"\<close> at 0.8 and of every other premise
  at 0.5.
\<close>

definition selective :: methods where
  "selective = shipped\<lparr>
     frame_practical := Some (\<lambda>statement use_case. statement),
     evaluate_clarity := (\<lambda>premise. if premise = ''clear'' then 0.8 else 0.5) \<rparr>"

text \<open>
  Further subclasses, each overriding one helper of the shipped class: a freshness check
  that reports every experiment as stale, a logic cross-check that reports an invalid
  statement, an analysis that always reports new patterns and new sources, and an
  authority check that reports the expert as not credible.
\<close>

definition stale :: methods where
  "stale = shipped\<lparr> is_outdated := (\<lambda>data time_sensitive. True) \<rparr>"


definition ever_new :: methods where
  "ever_new = shipped\<lparr> analyze_data := (\<lambda>evidence.
     [(''patterns'', PList [PStr ''Pattern 1'']), (''new_patterns'', PBool True),
      (''new_sources'', PList [PStr ''Archive''])]) \<rparr>"

definition distrusted :: methods where
  "distrusted = shipped\<lparr> trust_authority := (\<lambda>expert. [(''credible'', PBool False)]) \<rparr>"

section \<open>Vocabulary of the properties\<close>

text \<open>
  What a gating helper reports, as the stage reads it in \<^verbatim>\<open>if not d[k]: ...\<close>: the
  checkpoint passes when \<^verbatim>\<open>d[k]\<close> is there and truthy, and the helper rejects when
  \<^verbatim>\<open>d[k]\<close> is there and falsy. (A dictionary without the key is neither: the
  subscription raises \<^verbatim>\<open>KeyError\<close>.)
\<close>

definition passes :: "pydict \<Rightarrow> string \<Rightarrow> bool" where
  "passes d k = (has_key d k \<and> truthy (dict_get d k))"

definition rejects :: "pydict \<Rightarrow> string \<Rightarrow> bool" where
  "rejects d k = (has_key d k \<and> \<not> truthy (dict_get d k))"

text \<open>The audit lines a call has written: those of the state after it that the state before it lacks.\<close>

definition new_events :: "agent \<Rightarrow> agent \<Rightarrow> log_entry list" where
  "new_events before after = drop (length (logged before)) (logged after)"

text \<open>
  The first line \<^verbatim>\<open>gather_evidence\<close> writes, the first line \<^verbatim>\<open>evaluate_proposition\<close> writes,
  and the line of \<^verbatim>\<open>schedule_monitoring\<close>: each call of the method writes its line once.
\<close>

definition gather_entry :: log_entry where
  "gather_entry = (''Gut Tuning'', Txt ''Simulating intuitive insights.'')"

definition evaluate_entry :: log_entry where
  "evaluate_entry = (''Logic Cross-Check'', Txt ''Validating with logic.'')"

definition monitoring_entry :: log_entry where
  "monitoring_entry = (''Monitoring'', Txt ''Scheduled for future re-evaluation.'')"

text \<open>
  How a stage can stop early. \<open>aborts_at r s msg start\<close>: the call that went from state
  \<open>s\<close> to the outcome \<open>r\<close> raised \<^verbatim>\<open>ValueError(msg)\<close>, and the last line it wrote is
  \<open>start\<close>. \<open>returns_false_at r s reason start\<close>: the call returned
  \<^verbatim>\<open>{"truth": False, "reason": reason}\<close> without raising, the last line it wrote is
  \<open>start\<close>, and it did not write the line of \<^verbatim>\<open>schedule_monitoring\<close>. Every step and
  \<^verbatim>\<open>schedule_monitoring\<close> write a line before they do anything else, so a call whose
  last line is the start event of a step has run nothing after that step.
\<close>

definition aborts_at :: "(error + 'a) \<times> agent \<Rightarrow> agent \<Rightarrow> string \<Rightarrow> log_entry \<Rightarrow> bool" where
  "aborts_at r s msg start =
     (fst r = Inl (ValueError msg) \<and> new_events s (snd r) \<noteq> []
      \<and> last (new_events s (snd r)) = start)"

definition returns_false_at ::
  "(error + conclusion) \<times> agent \<Rightarrow> agent \<Rightarrow> string \<Rightarrow> log_entry \<Rightarrow> bool" where
  "returns_false_at r s reason start =
     (fst r = Inr (Truth_False reason) \<and> new_events s (snd r) \<noteq> []
      \<and> last (new_events s (snd r)) = start
      \<and> count_list (new_events s (snd r)) monitoring_entry = 0)"

text \<open>The lines one call of \<^verbatim>\<open>gather_evidence\<close> writes.\<close>

definition gather_lines :: "methods \<Rightarrow> input_data \<Rightarrow> agent \<Rightarrow> log_entry list" where
  "gather_lines E context s = new_events s (snd (gather_evidence E context s))"

text \<open>An evaluation to pass to \<^verbatim>\<open>conclude_proposition\<close> when no evaluation has run: empty.\<close>

definition no_evaluation :: evaluation where
  "no_evaluation = \<lparr> e_statement = [], e_confidence = Map.empty \<rparr>"

text \<open>
  The audit trail a stage is expected to leave, as a list of checkpoints in the order of
  its steps. A checkpoint has the start line its step writes first, the lines written
  inside the step between the two (only step 3.6 has any: those of the nested
  \<^verbatim>\<open>gather_evidence\<close>), the result line its step writes last, and whether the test
  of the step passes (\<open>True\<close> for a step without a test).
\<close>

record checkpoint =
  passed :: bool
  start_line :: log_entry
  nested_lines :: "log_entry list"
  result_line :: log_entry

definition step :: "bool \<Rightarrow> string \<Rightarrow> string \<Rightarrow> log_output \<Rightarrow> checkpoint" where
  "step ok name start result =
     \<lparr> passed = ok, start_line = (name, Txt start), nested_lines = [],
       result_line = (name, result) \<rparr>"



definition gather_checkpoints :: "methods \<Rightarrow> input_data \<Rightarrow> agent \<Rightarrow> checkpoint list" where
  "gather_checkpoints E context s =
    (let gut_insights = simulate_gut E
           (case i_initial_data context of None \<Rightarrow> PList [] | Some d \<Rightarrow> d);
         observations = observe_phenomena E (i_target context);
         recorded_data = record_data E observations;
         arguments = build_arguments E (statement s) (self_premises s) recorded_data;
         beliefs = list_beliefs E arguments;
         facts = gather_facts E beliefs (i_data_sources context);
         results = apply_scenario E (statement s) facts;
         exp_data = conduct_experiment E (statement s) (i_controls context);
         exp_logged = (if is_outdated E exp_data (i_time_sensitive context)
                       then refresh_data E (i_data_sources context) else exp_data)
     in
     [step True ''Gut Tuning'' ''Simulating intuitive insights.''
        (Fmt ''Insights: '' gut_insights),
      step True ''Phenomena Observation'' ''Collecting sensory data.''
        (Fmt ''Observations: '' observations),
      step True ''Experience Recording'' ''Documenting observations.''
        (Fmt ''Recorded: '' (PDict recorded_data)),
      step True ''Argument Building'' ''Constructing logical arguments.''
        (Fmt ''Arguments: '' (PList (map PStr arguments))),
      step True ''Beliefs Listing'' ''Compiling related beliefs.''
        (Fmt ''Beliefs: '' (PList (map PStr beliefs))),
      step True ''Facts Gathering'' ''Collecting real-world data.''
        (Fmt ''Facts: '' facts),
      step True ''Scenario Application'' ''Testing in real-world scenario.''
        (Fmt ''Results: '' (PDict results)),
      step True ''Experiment Conducting'' ''Running structured tests.''
        (Fmt ''Experiment data: '' (PDict exp_logged)),
      step True ''Credentials Review'' ''Verifying expert reliability.''
        (Fmt ''Expert reliability: '' (review_credentials E (expert_data s))),
      step True ''Group Consultation'' ''Gathering group feedback.''
        (Fmt ''Feedback: '' (consult_group E (statement s) (i_group context)))])"



section \<open>Auxiliary facts\<close>

text \<open>The helpers of the shipped class, one by one.\<close>

lemma AIPropositionAgent_simps:
  "evaluate_clarity (AIPropositionAgent now) = (\<lambda>premise. 0.8)"
  "is_falsifiable (AIPropositionAgent now) = (\<lambda>hypothesis. str_contains ''causes'' hypothesis)"
  "context_match (AIPropositionAgent now) = (\<lambda>statement context. True)"
  "clarify_statement (AIPropositionAgent now) = (\<lambda>statement. str_replace ''causes'' ''leads to'' statement)"
  "is_assessable (AIPropositionAgent now) = (\<lambda>statement. length statement > 10)"
  "frame_practical (AIPropositionAgent now) = None"
  "is_actionable (AIPropositionAgent now) = (\<lambda>statement. str_contains ''leads to'' statement)"
  "prepare_for_group (AIPropositionAgent now) = (\<lambda>statement. ''Proposition: '' @ statement)"
  "find_expert (AIPropositionAgent now) = (\<lambda>domain.
       [(''name'', PStr ''Expert''), (''credentials'', PStr ''PhD''), (''reliability'', PFloat 0.9)])"
  "simulate_gut (AIPropositionAgent now) = (\<lambda>data. PList [PStr ''Positive initial insight''])"
  "observe_phenomena (AIPropositionAgent now) = (\<lambda>target. PList [PStr ''Observation data''])"
  "record_data (AIPropositionAgent now) = (\<lambda>observations. [(''data'', observations), (''timestamp'', now)])"
  "build_arguments (AIPropositionAgent now) = (\<lambda>self_statement premises data.
       map (\<lambda>p. p @ '' supports '' @ self_statement) premises)"
  "list_beliefs (AIPropositionAgent now) = (\<lambda>arguments. arguments)"
  "gather_facts (AIPropositionAgent now) = (\<lambda>beliefs sources. PList [PStr ''Fact 1'', PStr ''Fact 2''])"
  "apply_scenario (AIPropositionAgent now) = (\<lambda>statement facts. [(''results'', PStr ''Scenario applied'')])"
  "conduct_experiment (AIPropositionAgent now) = (\<lambda>statement controls. [(''data'', PStr ''Experiment results'')])"
  "is_outdated (AIPropositionAgent now) = (\<lambda>data time_sensitive. False)"
  "refresh_data (AIPropositionAgent now) = (\<lambda>sources. [(''data'', PStr ''Updated results'')])"
  "review_credentials (AIPropositionAgent now) = (\<lambda>expert. dict_get_default expert ''reliability'' (PFloat 0.0))"
  "consult_group (AIPropositionAgent now) = (\<lambda>statement group.
       PList [PDict [(''member'', PStr ''Peer''), (''feedback'', PStr ''Agree'')]])"
  "cross_check_logic (AIPropositionAgent now) = (\<lambda>statement evidence. [(''valid'', PBool True)])"
  "test_consistency (AIPropositionAgent now) = (\<lambda>premises evidence. [(''consistent'', PBool True)])"
  "check_fit (AIPropositionAgent now) = (\<lambda>statement evidence. [(''coherent'', PBool True)])"
  "compare_facts (AIPropositionAgent now) = (\<lambda>statement evidence. [(''aligned'', PBool True)])"
  "verify_repeatability (AIPropositionAgent now) = (\<lambda>evidence. [(''reliable'', PBool True)])"
  "analyze_data (AIPropositionAgent now) = (\<lambda>evidence.
       [(''patterns'', PList [PStr ''Pattern 1'']), (''new_patterns'', PBool False)])"
  "update_bayesian (AIPropositionAgent now) = (\<lambda>analysis. 0.85)"
  "evaluate_outcomes (AIPropositionAgent now) = (\<lambda>analysis. [(''useful'', PBool True)])"
  "evaluate_testimony (AIPropositionAgent now) = (\<lambda>expert. [(''relevant'', PBool True)])"
  "gauge_consensus (AIPropositionAgent now) = (\<lambda>feedback. [(''broad'', PBool True)])"
  "conclude_rationally (AIPropositionAgent now) = (\<lambda>evaluation. [(''valid'', PBool True)])"
  "accept_belief (AIPropositionAgent now) = (\<lambda>statement evaluation. [(''coherent'', PBool True)])"
  "conclude_alignment (AIPropositionAgent now) = (\<lambda>statement evaluation. [(''matched'', PBool True)])"
  "accept_empirically (AIPropositionAgent now) = (\<lambda>evaluation. [(''supported'', PBool True)])"
  "refine_hypothesis (AIPropositionAgent now) = (\<lambda>self_hypothesis evaluation.
       [(''hypothesis'', PStr self_hypothesis), (''confidence'', PFloat 0.85)])"
  "deem_practical (AIPropositionAgent now) = (\<lambda>evaluation. [(''effective'', PBool True)])"
  "trust_authority (AIPropositionAgent now) = (\<lambda>expert. [(''credible'', PBool True)])"
  "consider_consensus (AIPropositionAgent now) = (\<lambda>evaluation. [(''agreed'', PBool True)])"
  by (simp_all add: AIPropositionAgent_def)

lemma str_contains_prefix: "prefix sub s \<Longrightarrow> str_contains sub s"
  by (cases s) auto

lemma str_contains_append: "str_contains sub (xs @ sub @ ys)"
  by (induction xs) (simp_all add: str_contains_prefix)

lemma length_str_replace:
  "length old \<le> length new \<Longrightarrow> length s \<le> length (str_replace old new s)"
  by (induction old new s rule: str_replace.induct) auto

lemma length_str_replace_occurs:
  "str_contains old s \<Longrightarrow> old \<noteq> [] \<Longrightarrow> length old \<le> length new \<Longrightarrow>
   length s + (length new - length old) \<le> length (str_replace old new s)"
proof (induction old new s rule: str_replace.induct)
  case (1 old new)
  then show ?case by simp
next
  case (2 old new c cs)
  show ?case
  proof (cases "prefix old (c # cs)")
    case True
    have "length (drop (length old) (c # cs)) \<le> length (str_replace old new (drop (length old) (c # cs)))"
      using "2.prems" by (intro length_str_replace) simp
    moreover have "length old \<le> length (c # cs)"
      using True by (rule prefix_length_le)
    ultimately show ?thesis using True "2.prems" by simp
  next
    case False
    then have "str_contains old cs" using "2.prems" by simp
    then show ?thesis using False "2.IH"(2) "2.prems" by simp
  qed
qed

lemma causes_occurs: "str_contains ''causes'' (p @ '' causes '' @ e @ ''.'')"
  using str_contains_append [of "''causes''" "p @ '' ''" "'' '' @ e @ ''.''"] by simp

lemma clarified_length:
  assumes "p \<noteq> []"
  shows "10 < length (str_replace ''causes'' ''leads to'' (p @ '' causes '' @ e @ ''.''))"
proof -
  have "length (p @ '' causes '' @ e @ ''.'') + (length ''leads to'' - length ''causes'')
          \<le> length (str_replace ''causes'' ''leads to'' (p @ '' causes '' @ e @ ''.''))"
    by (rule length_str_replace_occurs [OF causes_occurs]) simp_all
  moreover have "1 \<le> length p" using assms by (cases p) simp_all
  ultimately show ?thesis by simp
qed


lemma log_step_simps [simp]:
  "self_premises (log_step a b s) = self_premises s"
  "hypothesis (log_step a b s) = hypothesis s"
  "statement (log_step a b s) = statement s"
  "evidence (log_step a b s) = evidence s"
  "expert_data (log_step a b s) = expert_data s"
  "group_feedback (log_step a b s) = group_feedback s"
  "confidence_scores (log_step a b s) = confidence_scores s"
  "logged (log_step a b s) = logged s @ [(a, b)]"
  by (simp_all add: log_step_def)


lemma append_evidence_simps [simp]:
  "self_premises (append_evidence a b s) = self_premises s"
  "hypothesis (append_evidence a b s) = hypothesis s"
  "statement (append_evidence a b s) = statement s"
  "evidence (append_evidence a b s) = evidence s @ [[(''source'', PStr a), (''data'', b)]]"
  "expert_data (append_evidence a b s) = expert_data s"
  "group_feedback (append_evidence a b s) = group_feedback s"
  "confidence_scores (append_evidence a b s) = confidence_scores s"
  "logged (append_evidence a b s) = logged s"
  by (simp_all add: append_evidence_def)

lemma gather_evidence_fields [simp]:
  "self_premises (snd (gather_evidence E context s)) = self_premises s"
  "hypothesis (snd (gather_evidence E context s)) = hypothesis s"
  "statement (snd (gather_evidence E context s)) = statement s"
  "confidence_scores (snd (gather_evidence E context s)) = confidence_scores s"
  "expert_data (snd (gather_evidence E context s))
     = AList.update ''reliability'' (review_credentials E (expert_data s)) (expert_data s)"
  "group_feedback (snd (gather_evidence E context s)) = consult_group E (statement s) (i_group context)"
  "evidence (snd (gather_evidence E context s)) = fst (gather_evidence E context s)"
  by (simp_all add: gather_evidence_def Let_def)

lemma gather_evidence_logged:
  "logged (snd (gather_evidence E context s)) = logged s @ gather_lines E context s"
  by (simp add: gather_lines_def new_events_def gather_evidence_def Let_def)

lemma gather_lines_facts [simp]:
  "gather_lines E context s \<noteq> []"
  "count_list (gather_lines E context s) gather_entry = 1"
  "count_list (gather_lines E context s) evaluate_entry = 0"
  by (simp_all add: gather_lines_def new_events_def gather_evidence_def Let_def
        gather_entry_def evaluate_entry_def)

lemma dict_get_update [simp]: "dict_get (AList.update k v d) k = v"
  by (simp add: dict_get_def update_conv')

lemma step_simps [simp]:
  "passed (step ok name start result) = ok"
  "start_line (step ok name start result) = (name, Txt start)"
  "nested_lines (step ok name start result) = []"
  "result_line (step ok name start result) = (name, result)"
  by (simp_all add: step_def)

lemma gather_checkpoints_state [simp]:
  "gather_checkpoints E context (log_step a b s) = gather_checkpoints E context s"
  "gather_checkpoints E context (s\<lparr> confidence_scores := cs \<rparr>) = gather_checkpoints E context s"
  by (simp_all add: gather_checkpoints_def)


section \<open>Properties of \<^verbatim>\<open>define_proposition\<close>\<close>


text \<open>
  C1. The specification has \<^verbatim>\<open>define\<close> run all eight checkpoints and return
  \<^verbatim>\<open>{statement, premises}\<close> for every input with a non-empty context and a non-empty
  phenomenon. The class as shipped calls \<^verbatim>\<open>self.frame_practical\<close> in step 1.6 and defines
  no such method: for every such input, whatever the state and the other keys, the
  first five steps pass and the call raises \<^verbatim>\<open>AttributeError\<close>, so the stage never returns.
\<close>

theorem define_raises_AttributeError:
  assumes "truthy (i_context input_data)"
      and "i_phenomenon input_data = Some phenomenon" and "phenomenon \<noteq> []"
  shows "fst (define_proposition (AIPropositionAgent now) input_data s)
           = Inl (AttributeError ''frame_practical'')"
proof -
  have 1: "is_falsifiable (AIPropositionAgent now) = str_contains ''causes''"
   and 2: "context_match (AIPropositionAgent now) = (\<lambda>s c. True)"
   and 3: "clarify_statement (AIPropositionAgent now) = str_replace ''causes'' ''leads to''"
   and 4: "is_assessable (AIPropositionAgent now) = (\<lambda>s. length s > 10)"
   and 5: "frame_practical (AIPropositionAgent now) = None"
    by (simp_all add: AIPropositionAgent_simps)
  show ?thesis
    using assms
    by (simp add: define_proposition_def 1 2 3 4 5 Let_def case_prod_beta
        causes_occurs [simplified] clarified_length [simplified])
qed


theorem define_raises_AttributeError_main:
  "truthy (i_context main_input) \<and> i_phenomenon main_input = Some ''Employee recognition''
   \<and> fst (define_proposition shipped main_input init) = Inl (AttributeError ''frame_practical'')"
  using define_raises_AttributeError
    [of main_input "''Employee recognition''" "PStr ''2025-01-01 00:00:00''" init]
  by (simp add: main_input_def shipped_def)

text \<open>
  C10. With the falsifiability check of the class (\<^verbatim>\<open>"causes" in hypothesis\<close>), whatever the
  other helpers are: the hypothesis \<^verbatim>\<open>f"{phenomenon} causes {effect}."\<close> passes the check,
  and \<^verbatim>\<open>define_proposition\<close> never raises \<^verbatim>\<open>ValueError("Hypothesis must be falsifiable.")\<close>.
\<close>

theorem falsifiability_branch_unreachable:
  assumes "is_falsifiable E = is_falsifiable (AIPropositionAgent now)"
  shows "is_falsifiable E (phenomenon @ '' causes '' @ effect @ ''.'')
       \<and> fst (define_proposition E input_data s)
           \<noteq> Inl (ValueError ''Hypothesis must be falsifiable.'')"
proof -
  have 1: "is_falsifiable E = str_contains ''causes''"
    using assms by (simp add: AIPropositionAgent_simps)
  show ?thesis
    by (simp add: define_proposition_def 1 Let_def case_prod_beta
        causes_occurs [simplified] split: option.splits)
qed


theorem falsifiability_branch_unreachable_shipped:
  "is_falsifiable shipped ''Employee recognition causes increased productivity.''
   \<and> fst (define_proposition shipped main_input init)
        \<noteq> Inl (ValueError ''Hypothesis must be falsifiable.'')"
  using falsifiability_branch_unreachable
    [of shipped "PStr ''2025-01-01 00:00:00''" "''Employee recognition''"
        "''increased productivity''" main_input init]
  by (simp add: shipped_def)


text \<open>
  C2. The specification has every premise scoring at most 0.7 dropped and every premise
  scoring more given the prior 0.7. Step 1.2 removes from the list it is iterating over, so
  the element after a removed one is never visited. With the premises
  \<^verbatim>\<open>["vague 1", "clear", "vague 2", "vague 3"]\<close> and a clarity of 0.8 for \<^verbatim>\<open>"clear"\<close> and 0.5
  for the others, \<^verbatim>\<open>define\<close> completes and returns \<^verbatim>\<open>["clear", "vague 3"]\<close>: the premise
  \<^verbatim>\<open>"vague 3"\<close> scores 0.5 and is still there, and \<^verbatim>\<open>"clear"\<close> scores 0.8 and has no
  confidence score.
\<close>

theorem premise_filter_skips:
  "fst (define_proposition selective
         (main_input\<lparr> i_initial_premises := Some [''vague 1'', ''clear'', ''vague 2'', ''vague 3''] \<rparr>)
         init)
     = Inr (''Employee recognition leads to increased productivity.'', [''clear'', ''vague 3''])
   \<and> evaluate_clarity selective ''vague 3'' \<le> 0.7
   \<and> evaluate_clarity selective ''clear'' > 0.7
   \<and> confidence_scores (snd (define_proposition selective
         (main_input\<lparr> i_initial_premises := Some [''vague 1'', ''clear'', ''vague 2'', ''vague 3''] \<rparr>)
         init)) ''clear'' = None"
  by (simp add: define_proposition_def selective_def shipped_def AIPropositionAgent_simps
        main_input_def init_def Let_def case_prod_beta premises_loop.simps has_key_def dict_get_def)


section \<open>Properties of \<^verbatim>\<open>gather_evidence\<close>\<close>

text \<open>
  The stage appends ten records, in the order intuition, observation, recorded, arguments,
  beliefs, facts, scenario, experiment, expert, group. The experiment record holds what
  \<^verbatim>\<open>conduct_experiment\<close> returned, whatever \<^verbatim>\<open>is_outdated\<close> says.
\<close>

lemma gather_evidence_records:
  "fst (gather_evidence E context s) = evidence s @
     [[(''source'', PStr ''intuition''),
        (''data'', simulate_gut E (case i_initial_data context of None \<Rightarrow> PList [] | Some d \<Rightarrow> d))],
      [(''source'', PStr ''observation''), (''data'', observe_phenomena E (i_target context))],
      [(''source'', PStr ''recorded''),
        (''data'', PDict (record_data E (observe_phenomena E (i_target context))))],
      [(''source'', PStr ''arguments''),
        (''data'', PList (map PStr (build_arguments E (statement s) (self_premises s)
                     (record_data E (observe_phenomena E (i_target context))))))],
      [(''source'', PStr ''beliefs''),
        (''data'', PList (map PStr (list_beliefs E (build_arguments E (statement s) (self_premises s)
                     (record_data E (observe_phenomena E (i_target context)))))))],
      [(''source'', PStr ''facts''),
        (''data'', gather_facts E (list_beliefs E (build_arguments E (statement s) (self_premises s)
                     (record_data E (observe_phenomena E (i_target context)))))
                     (i_data_sources context))],
      [(''source'', PStr ''scenario''),
        (''data'', PDict (apply_scenario E (statement s)
                     (gather_facts E (list_beliefs E (build_arguments E (statement s) (self_premises s)
                        (record_data E (observe_phenomena E (i_target context)))))
                        (i_data_sources context))))],
      [(''source'', PStr ''experiment''),
        (''data'', PDict (conduct_experiment E (statement s) (i_controls context)))],
      [(''source'', PStr ''expert''),
        (''data'', PDict (AList.update ''reliability'' (review_credentials E (expert_data s))
                     (expert_data s)))],
      [(''source'', PStr ''group''),
        (''data'', consult_group E (statement s) (i_group context))]]"
  by (simp add: gather_evidence_def Let_def)


text \<open>
  C3. The specification has the experiment record hold the refreshed data when the
  freshness check reports the experiment as stale. Step 2.8 appends the record before it asks
  \<^verbatim>\<open>is_outdated\<close>, and the refreshed data only replaces the local variable that is logged:
  with a freshness check that reports stale, the eighth record appended still holds
  \<^verbatim>\<open>"Experiment results"\<close>, not the \<^verbatim>\<open>"Updated results"\<close> of \<^verbatim>\<open>refresh_data\<close>, which only
  reach the log.
\<close>

theorem stale_experiment_record_kept:
  "is_outdated stale (conduct_experiment stale (statement init) (i_controls main_input))
     (i_time_sensitive main_input)
   \<and> fst (gather_evidence stale main_input init) ! 7
       = [(''source'', PStr ''experiment''), (''data'', PDict [(''data'', PStr ''Experiment results'')])]
   \<and> refresh_data stale (i_data_sources main_input) = [(''data'', PStr ''Updated results'')]
   \<and> (''Experiment Conducting'', Fmt ''Experiment data: '' (PDict [(''data'', PStr ''Updated results'')]))
       \<in> set (logged (snd (gather_evidence stale main_input init)))"
  by (simp add: gather_evidence_records)
     (simp add: stale_def shipped_def AIPropositionAgent_simps init_def gather_evidence_def Let_def)


section \<open>Properties of \<^verbatim>\<open>evaluate_proposition\<close>\<close>

lemmas evaluate_unfold =
  evaluate_proposition_def Let_def passes_def rejects_def gather_evidence_logged no_input_def
  new_events_def aborts_at_def











text \<open>
  The ways through the stage: it stops at the first checkpoint that does not pass, or
  all eight raising checkpoints pass.
\<close>

lemma evaluate_paths:
  obtains (stop1) "\<not> passes (cross_check_logic E (statement s) ev) ''valid''"
    | (stop2) "passes (cross_check_logic E (statement s) ev) ''valid''"
      "\<not> passes (test_consistency E (self_premises s) ev) ''consistent''"
    | (stop3) "passes (cross_check_logic E (statement s) ev) ''valid''"
      "passes (test_consistency E (self_premises s) ev) ''consistent''"
      "\<not> passes (check_fit E (statement s) (evidence s)) ''coherent''"
    | (stop4) "passes (cross_check_logic E (statement s) ev) ''valid''"
      "passes (test_consistency E (self_premises s) ev) ''consistent''"
      "passes (check_fit E (statement s) (evidence s)) ''coherent''"
      "\<not> passes (compare_facts E (statement s) ev) ''aligned''"
    | (stop5) "passes (cross_check_logic E (statement s) ev) ''valid''"
      "passes (test_consistency E (self_premises s) ev) ''consistent''"
      "passes (check_fit E (statement s) (evidence s)) ''coherent''"
      "passes (compare_facts E (statement s) ev) ''aligned''"
      "\<not> passes (verify_repeatability E ev) ''reliable''"
    | (stop6) "passes (cross_check_logic E (statement s) ev) ''valid''"
      "passes (test_consistency E (self_premises s) ev) ''consistent''"
      "passes (check_fit E (statement s) (evidence s)) ''coherent''"
      "passes (compare_facts E (statement s) ev) ''aligned''"
      "passes (verify_repeatability E ev) ''reliable''"
      "\<not> passes (evaluate_outcomes E (analyze_data E ev)) ''useful''"
    | (stop7) "passes (cross_check_logic E (statement s) ev) ''valid''"
      "passes (test_consistency E (self_premises s) ev) ''consistent''"
      "passes (check_fit E (statement s) (evidence s)) ''coherent''"
      "passes (compare_facts E (statement s) ev) ''aligned''"
      "passes (verify_repeatability E ev) ''reliable''"
      "passes (evaluate_outcomes E (analyze_data E ev)) ''useful''"
      "\<not> passes (evaluate_testimony E
          (if truthy (dict_get (analyze_data E ev) ''new_patterns'')
           then AList.update ''reliability'' (review_credentials E (expert_data s)) (expert_data s)
           else expert_data s)) ''relevant''"
    | (stop8) "passes (cross_check_logic E (statement s) ev) ''valid''"
      "passes (test_consistency E (self_premises s) ev) ''consistent''"
      "passes (check_fit E (statement s) (evidence s)) ''coherent''"
      "passes (compare_facts E (statement s) ev) ''aligned''"
      "passes (verify_repeatability E ev) ''reliable''"
      "passes (evaluate_outcomes E (analyze_data E ev)) ''useful''"
      "passes (evaluate_testimony E
          (if truthy (dict_get (analyze_data E ev) ''new_patterns'')
           then AList.update ''reliability'' (review_credentials E (expert_data s)) (expert_data s)
           else expert_data s)) ''relevant''"
      "\<not> passes (gauge_consensus E
          (if truthy (dict_get (analyze_data E ev) ''new_patterns'')
           then consult_group E (statement s) PNone else group_feedback s)) ''broad''"
    | (through) "passes (cross_check_logic E (statement s) ev) ''valid''"
      "passes (test_consistency E (self_premises s) ev) ''consistent''"
      "passes (check_fit E (statement s) (evidence s)) ''coherent''"
      "passes (compare_facts E (statement s) ev) ''aligned''"
      "passes (verify_repeatability E ev) ''reliable''"
      "passes (evaluate_outcomes E (analyze_data E ev)) ''useful''"
      "passes (evaluate_testimony E
          (if truthy (dict_get (analyze_data E ev) ''new_patterns'')
           then AList.update ''reliability'' (review_credentials E (expert_data s)) (expert_data s)
           else expert_data s)) ''relevant''"
      "passes (gauge_consensus E
          (if truthy (dict_get (analyze_data E ev) ''new_patterns'')
           then consult_group E (statement s) PNone else group_feedback s)) ''broad''"
  by blast

lemma evaluate_opening_lines:
  "count_list (new_events s (snd (evaluate_proposition E ev s))) gather_entry \<le> 1
   \<and> count_list (new_events s (snd (evaluate_proposition E ev s))) evaluate_entry = 1"
proof (cases rule: evaluate_paths [where E = E and ev = ev and s = s])
  case stop1
  then show ?thesis
    by (cases "has_key (cross_check_logic E (statement s) ev) ''valid''")
       (simp_all add: evaluate_unfold gather_entry_def evaluate_entry_def
         gather_lines_facts [unfolded gather_entry_def evaluate_entry_def])
next
  case stop2
  then show ?thesis
    by (cases "has_key (test_consistency E (self_premises s) ev) ''consistent''")
       (simp_all add: evaluate_unfold gather_entry_def evaluate_entry_def
         gather_lines_facts [unfolded gather_entry_def evaluate_entry_def])
next
  case stop3
  then show ?thesis
    by (cases "has_key (check_fit E (statement s) (evidence s)) ''coherent''")
       (simp_all add: evaluate_unfold gather_entry_def evaluate_entry_def
         gather_lines_facts [unfolded gather_entry_def evaluate_entry_def])
next
  case stop4
  then show ?thesis
    by (cases "has_key (compare_facts E (statement s) ev) ''aligned''")
       (simp_all add: evaluate_unfold gather_entry_def evaluate_entry_def
         gather_lines_facts [unfolded gather_entry_def evaluate_entry_def])
next
  case stop5
  then show ?thesis
    by (cases "has_key (verify_repeatability E ev) ''reliable''")
       (simp_all add: evaluate_unfold gather_entry_def evaluate_entry_def
         gather_lines_facts [unfolded gather_entry_def evaluate_entry_def])
next
  case stop6
  then show ?thesis
    by (cases "has_key (evaluate_outcomes E (analyze_data E ev)) ''useful''";
        cases "truthy (dict_get (analyze_data E ev) ''new_patterns'')")
       (simp_all add: evaluate_unfold gather_entry_def evaluate_entry_def
         gather_lines_facts [unfolded gather_entry_def evaluate_entry_def])
next
  case stop7
  then show ?thesis
    by (cases "has_key (evaluate_testimony E
          (if truthy (dict_get (analyze_data E ev) ''new_patterns'')
           then AList.update ''reliability'' (review_credentials E (expert_data s)) (expert_data s)
           else expert_data s)) ''relevant''";
        cases "truthy (dict_get (analyze_data E ev) ''new_patterns'')")
       (simp_all add: evaluate_unfold gather_entry_def evaluate_entry_def
         gather_lines_facts [unfolded gather_entry_def evaluate_entry_def])
next
  case stop8
  then show ?thesis
    by (cases "has_key (gauge_consensus E
          (if truthy (dict_get (analyze_data E ev) ''new_patterns'')
           then consult_group E (statement s) PNone else group_feedback s)) ''broad''";
        cases "truthy (dict_get (analyze_data E ev) ''new_patterns'')")
       (simp_all add: evaluate_unfold gather_entry_def evaluate_entry_def
         gather_lines_facts [unfolded gather_entry_def evaluate_entry_def])
next
  case through
  then show ?thesis
    by (cases "truthy (dict_get (analyze_data E ev) ''new_patterns'')")
       (simp_all add: evaluate_unfold gather_entry_def evaluate_entry_def
         gather_lines_facts [unfolded gather_entry_def evaluate_entry_def])
qed

text \<open>
  C5. Among the lines one call of \<^verbatim>\<open>evaluate_proposition\<close> writes, the opening line of
  \<^verbatim>\<open>gather_evidence\<close> occurs at most once and the opening line of \<^verbatim>\<open>evaluate_proposition\<close>
  exactly once, whatever the helpers return: at most one nested \<^verbatim>\<open>gather_evidence\<close>, and
  no re-entry into \<^verbatim>\<open>evaluate_proposition\<close>. One call of \<^verbatim>\<open>gather_evidence\<close> writes its own
  opening line once and never the opening line of \<^verbatim>\<open>evaluate_proposition\<close>.
\<close>

theorem evaluate_gathers_at_most_once:
  "count_list (new_events s (snd (evaluate_proposition E ev s))) gather_entry \<le> 1
   \<and> count_list (new_events s (snd (evaluate_proposition E ev s))) evaluate_entry = 1
   \<and> count_list (new_events s (snd (gather_evidence E ctx s))) gather_entry = 1
   \<and> count_list (new_events s (snd (gather_evidence E ctx s))) evaluate_entry = 0"
  using evaluate_opening_lines [of s E ev]
  by (simp add: gather_lines_def [symmetric])

theorem evaluate_gathers_at_most_once_ever_new:
  "truthy (dict_get (analyze_data ever_new []) ''new_patterns'')
   \<and> count_list (new_events init (snd (evaluate_proposition ever_new [] init))) gather_entry \<le> 1
   \<and> count_list (new_events init (snd (evaluate_proposition ever_new [] init))) evaluate_entry = 1
   \<and> length (evidence (snd (evaluate_proposition ever_new [] init))) = 10"
  using evaluate_gathers_at_most_once
    [where E = ever_new and ev = "[]" and s = init and ctx = no_input]
  by (simp add: ever_new_def shipped_def AIPropositionAgent_simps init_def dict_get_def
        evaluate_proposition_def Let_def has_key_def gather_evidence_records)

section \<open>Properties of \<^verbatim>\<open>conclude_proposition\<close>\<close>

lemmas conclude_unfold =
  conclude_proposition_def Let_def passes_def rejects_def schedule_monitoring_def
  monitoring_entry_def new_events_def returns_false_at_def aborts_at_def

lemma conclude_alignment_rejects:
  assumes "passes (conclude_rationally E evaluation) ''valid''"
      and "passes (accept_belief E (statement s) evaluation) ''coherent''"
      and "rejects (conclude_alignment E (statement s) evaluation) ''matched''"
  shows "returns_false_at (conclude_proposition E evaluation s) s ''No fact alignment''
           (''Alignment Conclusion'', Txt ''Verifying fact alignment.'')"
  using assms by (simp add: conclude_unfold)

lemma conclude_empirical_rejects:
  assumes "passes (conclude_rationally E evaluation) ''valid''"
      and "passes (accept_belief E (statement s) evaluation) ''coherent''"
      and "passes (conclude_alignment E (statement s) evaluation) ''matched''"
      and "rejects (accept_empirically E evaluation) ''supported''"
  shows "returns_false_at (conclude_proposition E evaluation s) s ''No empirical support''
           (''Empirical Acceptance'', Txt ''Checking evidence support.'')"
  using assms by (simp add: conclude_unfold)

lemma conclude_practical_rejects:
  assumes "passes (conclude_rationally E evaluation) ''valid''"
      and "passes (accept_belief E (statement s) evaluation) ''coherent''"
      and "passes (conclude_alignment E (statement s) evaluation) ''matched''"
      and "passes (accept_empirically E evaluation) ''supported''"
      and "rejects (deem_practical E evaluation) ''effective''"
  shows "returns_false_at (conclude_proposition E evaluation s) s ''Not practical''
           (''Practical Deeming'', Txt ''Checking practical value.'')"
  using assms by (simp add: conclude_unfold)

lemma conclude_authority_rejects:
  assumes "passes (conclude_rationally E evaluation) ''valid''"
      and "passes (accept_belief E (statement s) evaluation) ''coherent''"
      and "passes (conclude_alignment E (statement s) evaluation) ''matched''"
      and "passes (accept_empirically E evaluation) ''supported''"
      and "passes (deem_practical E evaluation) ''effective''"
      and "rejects (trust_authority E (expert_data s)) ''credible''"
  shows "returns_false_at (conclude_proposition E evaluation s) s ''Expert not credible''
           (''Authority Trusting'', Txt ''Verifying expert credibility.'')"
  using assms by (simp add: conclude_unfold)

lemma conclude_consensus_rejects:
  assumes "passes (conclude_rationally E evaluation) ''valid''"
      and "passes (accept_belief E (statement s) evaluation) ''coherent''"
      and "passes (conclude_alignment E (statement s) evaluation) ''matched''"
      and "passes (accept_empirically E evaluation) ''supported''"
      and "passes (deem_practical E evaluation) ''effective''"
      and "passes (trust_authority E (expert_data s)) ''credible''"
      and "rejects (consider_consensus E evaluation) ''agreed''"
  shows "returns_false_at (conclude_proposition E evaluation s) s ''No consensus''
           (''Consensus Consideration'', Txt ''Finalizing with consensus.'')"
  using assms by (simp add: conclude_unfold)


text \<open>
  C6. When the two raising checkpoints 4.1 and 4.2 pass, the first of the five checkpoints
  fact alignment, empirical support, practical effectiveness, authority credibility and
  consensus agreement whose helper reports a falsy flag makes \<^verbatim>\<open>conclude_proposition\<close>
  return \<^verbatim>\<open>{"truth": False, "reason": ...}\<close> with the reason of that checkpoint: nothing is
  raised, the last line written is the start event of that checkpoint (no later
  checkpoint has run), and the monitoring scheduler has not written its line.
\<close>

theorem conclude_soft_fail:
  assumes "passes (conclude_rationally E evaluation) ''valid''"
      and "passes (accept_belief E (statement s) evaluation) ''coherent''"
  shows
   "(rejects (conclude_alignment E (statement s) evaluation) ''matched'' \<longrightarrow>
       returns_false_at (conclude_proposition E evaluation s) s ''No fact alignment''
         (''Alignment Conclusion'', Txt ''Verifying fact alignment.''))
    \<and> (passes (conclude_alignment E (statement s) evaluation) ''matched'' \<longrightarrow>
     (rejects (accept_empirically E evaluation) ''supported'' \<longrightarrow>
       returns_false_at (conclude_proposition E evaluation s) s ''No empirical support''
         (''Empirical Acceptance'', Txt ''Checking evidence support.''))
    \<and> (passes (accept_empirically E evaluation) ''supported'' \<longrightarrow>
     (rejects (deem_practical E evaluation) ''effective'' \<longrightarrow>
       returns_false_at (conclude_proposition E evaluation s) s ''Not practical''
         (''Practical Deeming'', Txt ''Checking practical value.''))
    \<and> (passes (deem_practical E evaluation) ''effective'' \<longrightarrow>
     (rejects (trust_authority E (expert_data s)) ''credible'' \<longrightarrow>
       returns_false_at (conclude_proposition E evaluation s) s ''Expert not credible''
         (''Authority Trusting'', Txt ''Verifying expert credibility.''))
    \<and> (passes (trust_authority E (expert_data s)) ''credible'' \<longrightarrow>
     (rejects (consider_consensus E evaluation) ''agreed'' \<longrightarrow>
       returns_false_at (conclude_proposition E evaluation s) s ''No consensus''
         (''Consensus Consideration'', Txt ''Finalizing with consensus.''))))))"
  using assms conclude_alignment_rejects conclude_empirical_rejects conclude_practical_rejects
    conclude_authority_rejects conclude_consensus_rejects
  by blast

theorem conclude_soft_fail_distrusted:
  "passes (conclude_rationally distrusted no_evaluation) ''valid''
   \<and> passes (accept_belief distrusted (statement init) no_evaluation) ''coherent''
   \<and> passes (conclude_alignment distrusted (statement init) no_evaluation) ''matched''
   \<and> passes (accept_empirically distrusted no_evaluation) ''supported''
   \<and> passes (deem_practical distrusted no_evaluation) ''effective''
   \<and> rejects (trust_authority distrusted (expert_data init)) ''credible''
   \<and> returns_false_at (conclude_proposition distrusted no_evaluation init) init
        ''Expert not credible'' (''Authority Trusting'', Txt ''Verifying expert credibility.'')"
  using conclude_soft_fail [of distrusted no_evaluation init]
  by (simp add: distrusted_def shipped_def AIPropositionAgent_simps passes_def rejects_def
        has_key_def dict_get_def)


text \<open>
  C7. When every checkpoint of \<^verbatim>\<open>conclude_proposition\<close> agrees, the stage returns
  \<^verbatim>\<open>{"truth": True, "statement": self.statement, "confidence": self.confidence_scores}\<close>, and
  the line of the monitoring scheduler is written exactly once, as the last line.
\<close>

theorem conclude_all_agree:
  assumes "passes (conclude_rationally E evaluation) ''valid''"
      and "passes (accept_belief E (statement s) evaluation) ''coherent''"
      and "passes (conclude_alignment E (statement s) evaluation) ''matched''"
      and "passes (accept_empirically E evaluation) ''supported''"
      and "passes (deem_practical E evaluation) ''effective''"
      and "passes (trust_authority E (expert_data s)) ''credible''"
      and "passes (consider_consensus E evaluation) ''agreed''"
  shows "fst (conclude_proposition E evaluation s)
           = Inr (Truth_True (statement s) (confidence_scores s))
       \<and> count_list (new_events s (snd (conclude_proposition E evaluation s))) monitoring_entry = 1
       \<and> last (new_events s (snd (conclude_proposition E evaluation s))) = monitoring_entry"
  using assms by (simp add: conclude_unfold)

theorem conclude_all_agree_shipped:
  "passes (conclude_rationally shipped no_evaluation) ''valid''
   \<and> passes (accept_belief shipped (statement init) no_evaluation) ''coherent''
   \<and> passes (conclude_alignment shipped (statement init) no_evaluation) ''matched''
   \<and> passes (accept_empirically shipped no_evaluation) ''supported''
   \<and> passes (deem_practical shipped no_evaluation) ''effective''
   \<and> passes (trust_authority shipped (expert_data init)) ''credible''
   \<and> passes (consider_consensus shipped no_evaluation) ''agreed''
   \<and> fst (conclude_proposition shipped no_evaluation init)
        = Inr (Truth_True (statement init) (confidence_scores init))
   \<and> count_list (new_events init (snd (conclude_proposition shipped no_evaluation init)))
        monitoring_entry = 1"
  using conclude_all_agree [of shipped no_evaluation init]
  by (simp add: shipped_def AIPropositionAgent_simps passes_def has_key_def dict_get_def)


section \<open>Audit events\<close>










section \<open>Raising checkpoints\<close>















section \<open>No order of the stages is enforced\<close>

text \<open>
  The agent keeps no record of the stage it is in, and no method tests one. What
  \<^verbatim>\<open>define_proposition\<close> raises or returns does not depend on the state of the agent at all.
\<close>

lemma premises_loop_fst:
  "fst (premises_loop clarity i ps cs) = fst (premises_loop clarity i ps cs')"
proof (induction clarity i ps cs arbitrary: cs' rule: premises_loop.induct)
  case (1 clarity i ps cs)
  show ?case
  proof (cases "i < length ps")
    case False
    then show ?thesis by (simp add: premises_loop.simps)
  next
    case True
    show ?thesis
    proof (cases "clarity (ps ! i) > 0.7")
      case high: True
      have "premises_loop clarity i ps cs
              = premises_loop clarity (i + 1) ps (cs(ps ! i \<mapsto> 0.7))"
       and "premises_loop clarity i ps cs'
              = premises_loop clarity (i + 1) ps (cs'(ps ! i \<mapsto> 0.7))"
        using True high by (subst premises_loop.simps, simp)+
      then show ?thesis
        using "1.IH"(1) [OF True refl refl high] by (simp only:)
    next
      case low: False
      have "premises_loop clarity i ps cs
              = premises_loop clarity (i + 1) (remove1 (ps ! i) ps) cs"
       and "premises_loop clarity i ps cs'
              = premises_loop clarity (i + 1) (remove1 (ps ! i) ps) cs'"
        using True low by (subst premises_loop.simps, simp)+
      then show ?thesis
        using "1.IH"(2) [OF True refl refl low] by (simp only:)
    qed
  qed
qed

lemma define_outcome_stateless:
  "fst (define_proposition E input_data s) = fst (define_proposition E input_data init)"
  using premises_loop_fst [of "evaluate_clarity E" 0
      "case i_initial_premises input_data of None \<Rightarrow> [] | Some l \<Rightarrow> l"
      "confidence_scores s" "confidence_scores init"]
  by (simp add: define_proposition_def Let_def case_prod_beta if_distrib [of fst]
        option.case_distrib [of fst]
      cong: if_cong option.case_cong split del: if_split)


text \<open>
  C9. On a freshly constructed agent of the shipped class, \<^verbatim>\<open>conclude_proposition\<close> called
  first returns \<^verbatim>\<open>{"truth": True}\<close> with the empty statement and the empty confidence map,
  whatever evaluation it is given; \<^verbatim>\<open>evaluate_proposition\<close> called first returns the empty
  statement and the posterior alone; \<^verbatim>\<open>gather_evidence\<close> called first returns its ten
  records. \<^verbatim>\<open>define_proposition\<close>, with any helpers and from any state, raises or
  returns what it does on a fresh agent. (The errors of the model are \<^verbatim>\<open>ValueError\<close>,
  \<^verbatim>\<open>KeyError\<close> and \<^verbatim>\<open>AttributeError\<close>: there is no wrong-state error to raise.)
\<close>

theorem no_stage_order_enforced:
  "fst (conclude_proposition (AIPropositionAgent now) evaluation init)
     = Inr (Truth_True [] Map.empty)
   \<and> fst (evaluate_proposition (AIPropositionAgent now) ev init)
     = Inr \<lparr> e_statement = [], e_confidence = [''posterior'' \<mapsto> 0.85] \<rparr>
   \<and> length (fst (gather_evidence (AIPropositionAgent now) ctx init)) = 10
   \<and> fst (define_proposition E input_data s) = fst (define_proposition E input_data init)"
proof -
  have "fst (conclude_proposition (AIPropositionAgent now) evaluation init)
          = Inr (Truth_True [] Map.empty)"
    by (simp add: conclude_proposition_def Let_def AIPropositionAgent_simps init_def
          has_key_def dict_get_def schedule_monitoring_def)
  moreover have "fst (evaluate_proposition (AIPropositionAgent now) ev init)
          = Inr \<lparr> e_statement = [], e_confidence = [''posterior'' \<mapsto> 0.85] \<rparr>"
    by (simp add: evaluate_proposition_def Let_def AIPropositionAgent_simps init_def
          has_key_def dict_get_def)
  moreover have "length (fst (gather_evidence (AIPropositionAgent now) ctx init)) = 10"
    by (simp add: gather_evidence_records init_def)
  ultimately show ?thesis using define_outcome_stateless by blast
qed

theorem no_stage_order_enforced_shipped:
  "fst (conclude_proposition shipped no_evaluation init) = Inr (Truth_True [] Map.empty)
   \<and> fst (evaluate_proposition shipped [] init)
     = Inr \<lparr> e_statement = [], e_confidence = [''posterior'' \<mapsto> 0.85] \<rparr>
   \<and> length (fst (gather_evidence shipped main_input init)) = 10"
  using no_stage_order_enforced
    [where now = "PStr ''2025-01-01 00:00:00''" and evaluation = no_evaluation and ev = "[]"
       and ctx = main_input and E = shipped and input_data = main_input and s = init]
  by (simp add: shipped_def)

end
